theory Spec2Isabelle
  imports Main "HOL-Library.Word"
begin

section \<open>JavaScript strings\<close>

text \<open>
  A JavaScript string is a sequence of UTF-16 code units. ASCII literals of the source are
  written \<open>ascii ''...''\<close>.
\<close>

type_synonym code_unit = "16 word"
type_synonym jsstring = "code_unit list"

definition ascii :: "string \<Rightarrow> jsstring" where
  "ascii s = map of_char s"

text \<open>\<open>String.prototype.startsWith\<close> and \<open>String.prototype.includes\<close>.\<close>

fun startsWith :: "jsstring \<Rightarrow> jsstring \<Rightarrow> bool" where
  "startsWith s [] = True"
| "startsWith [] (p # ps) = False"
| "startsWith (c # cs) (p # ps) = (c = p \<and> startsWith cs ps)"

fun includes_str :: "jsstring \<Rightarrow> jsstring \<Rightarrow> bool" where
  "includes_str [] p = (p = [])"
| "includes_str (c # cs) p = (startsWith (c # cs) p \<or> includes_str cs p)"

text \<open>
  \<open>String.prototype.trim\<close> removes the white space and line terminator code units of
  ECMAScript from both ends.
\<close>

definition isWhiteSpace :: "code_unit \<Rightarrow> bool" where
  "isWhiteSpace c =
     (c \<in> set [0x0009, 0x000A, 0x000B, 0x000C, 0x000D, 0x0020, 0x00A0, 0x1680,
                0x2000, 0x2001, 0x2002, 0x2003, 0x2004, 0x2005, 0x2006, 0x2007,
                0x2008, 0x2009, 0x200A, 0x2028, 0x2029, 0x202F, 0x205F, 0x3000, 0xFEFF])"

definition trim :: "jsstring \<Rightarrow> jsstring" where
  "trim s = rev (dropWhile isWhiteSpace (rev (dropWhile isWhiteSpace s)))"

section \<open>types.ts\<close>

datatype VoiceName = Kore | Puck | Charon | Fenrir | Zephyr

text \<open>The type \<open>Language = 'en' | 'ml'\<close>.\<close>

datatype Language = Lang_en | Lang_ml

type_synonym byte = "8 word"

record AudioGenerationState =
  isGenerating :: bool
  audioUrl :: "jsstring option"
  error :: "jsstring option"
  rawBuffer :: "byte list option"

section \<open>The remote service\<close>

text \<open>
  Modelled from the spec: the request and response types of the remote service's client
  library are not part of the repository. A response holds an optional text and an optional
  list of candidates, each with content parts; a part may carry inline data tagged with a
  MIME type and a base64 payload. Fields that \<open>generateSpeech\<close> reads behind a guard
  (\<open>?.\<close>, \<open>&&\<close>, \<open>!\<close>) are optional, fields it reads unguarded are present.
\<close>

record blob =
  mimeType :: jsstring
  data :: "jsstring option"

record part =
  part_text :: "jsstring option"
  inlineData :: "blob option"

record content =
  parts :: "part list"

record candidate =
  content :: content

record response =
  response_text :: "jsstring option"
  candidates :: "candidate list option"

text \<open>
  A thrown value: an error object with an optional message and an optional numeric status
  (an \<open>Error\<close> made by \<open>new Error(m)\<close> has the message \<open>m\<close> and no status).
\<close>

record js_error =
  message :: "jsstring option"
  status :: "int option"

definition new_Error :: "jsstring \<Rightarrow> js_error" where
  "new_Error m = \<lparr>message = Some m, status = None\<rparr>"

text \<open>
  The argument of \<open>ai.models.generateContent\<close>: the model, the contents and the
  configuration (low temperature for the translation; audio modality with the prebuilt
  voice for the speech synthesis).
\<close>

datatype config = Temperature_0_1 | Audio_with_voice VoiceName

record request =
  model :: jsstring
  contents :: jsstring
  config :: config

text \<open>
  The remote service as \<open>generateSpeech\<close> sees it: each call either throws or returns a
  response. The construction of the client object is taken to succeed.
\<close>

type_synonym service = "request \<Rightarrow> js_error + response"

section \<open>services/geminiService: generateSpeech\<close>

definition translationRequest :: "jsstring \<Rightarrow> request" where
  "translationRequest inputText =
     \<lparr>model = ascii ''gemini-3-flash-preview'',
      contents = ascii ''Translate the following English text to natural Malayalam. Output ONLY the translation, nothing else: ''
                 @ [0x22] @ inputText @ [0x22],
      config = Temperature_0_1\<rparr>"

definition speechRequest :: "jsstring \<Rightarrow> VoiceName \<Rightarrow> request" where
  "speechRequest targetText voiceName =
     \<lparr>model = ascii ''gemini-2.5-flash-preview-tts'',
      contents = targetText,
      config = Audio_with_voice voiceName\<rparr>"

definition fallbackText :: "jsstring \<Rightarrow> jsstring" where
  "fallbackText inputText = ascii ''Read the following in Malayalam: '' @ inputText"

text \<open>
  Step 1, the translation: the requests issued and the text to synthesize. A \<open>translated\<close>
  string is truthy when it is not empty.
\<close>

definition translationStep :: "service \<Rightarrow> jsstring \<Rightarrow> Language \<Rightarrow> request list \<times> jsstring" where
  "translationStep ai inputText language =
     (if language = Lang_ml then
        (case ai (translationRequest inputText) of
           Inr translationResponse \<Rightarrow>
             (case map_option trim (response_text translationResponse) of
                Some (c # cs) \<Rightarrow> ([translationRequest inputText], c # cs)
              | _ \<Rightarrow> ([translationRequest inputText], inputText))
         | Inl err \<Rightarrow> ([translationRequest inputText], fallbackText inputText))
      else ([], inputText))"

definition BLOCKED :: jsstring where
  "BLOCKED = ascii ''The request was blocked or returned no results. Please try a different sentence.''"

definition CANNOT_PROCESS :: jsstring where
  "CANNOT_PROCESS = ascii ''The speech engine could not process this text. Please try again with simpler wording.''"

definition HICCUP :: jsstring where
  "HICCUP = ascii ''Gemini server had a momentary hiccup (Error 500). Please tap 'Translate & Speak' again.''"

text \<open>The predicate of \<open>parts.find\<close>.\<close>

definition isAudioPart :: "part \<Rightarrow> bool" where
  "isAudioPart p =
     (case inlineData p of
        None \<Rightarrow> False
      | Some b \<Rightarrow> startsWith (mimeType b) (ascii ''audio/''))"

text \<open>The body of the \<open>try\<close> block after the response has arrived.\<close>

definition extractAudio :: "response \<Rightarrow> js_error + jsstring" where
  "extractAudio resp =
     (case candidates resp of
        None \<Rightarrow> Inl (new_Error BLOCKED)
      | Some [] \<Rightarrow> Inl (new_Error BLOCKED)
      | Some (cand # _) \<Rightarrow>
          (case find isAudioPart (parts (content cand)) of
             None \<Rightarrow> Inl (new_Error CANNOT_PROCESS)
           | Some audioPart \<Rightarrow>
               (case inlineData audioPart of
                  None \<Rightarrow> Inl (new_Error CANNOT_PROCESS)
                | Some b \<Rightarrow>
                    (case data b of
                       Some (c # cs) \<Rightarrow> Inr (c # cs)
                     | _ \<Rightarrow> Inl (new_Error CANNOT_PROCESS)))))"

text \<open>The \<open>catch\<close> block: what is thrown for a caught error.\<close>

definition is500 :: "js_error \<Rightarrow> bool" where
  "is500 err =
     (status err = Some 500 \<or>
      (case message err of None \<Rightarrow> False | Some m \<Rightarrow> includes_str m (ascii ''500'')))"

definition rethrow :: "js_error \<Rightarrow> js_error" where
  "rethrow err = (if is500 err then new_Error HICCUP else err)"

text \<open>Step 2, the speech generation: the \<open>try\<close> block with its \<open>catch\<close>.\<close>

definition speechStep :: "service \<Rightarrow> jsstring \<Rightarrow> VoiceName \<Rightarrow> js_error + jsstring" where
  "speechStep ai targetText voiceName =
     (case (case ai (speechRequest targetText voiceName) of
              Inl err \<Rightarrow> Inl err
            | Inr resp \<Rightarrow> extractAudio resp) of
        Inl err \<Rightarrow> Inl (rethrow err)
      | Inr base64Audio \<Rightarrow> Inr base64Audio)"

text \<open>
  \<open>generateSpeech\<close>: the requests sent to the service, in order, and the outcome of the
  promise (\<open>Inl\<close> a rejection, \<open>Inr\<close> the base64 audio).
\<close>

definition generateSpeech ::
  "service \<Rightarrow> jsstring \<Rightarrow> VoiceName \<Rightarrow> Language \<Rightarrow> request list \<times> (js_error + jsstring)" where
  "generateSpeech ai inputText voiceName language =
     (case translationStep ai inputText language of
        (sent, targetText) \<Rightarrow>
          (sent @ [speechRequest targetText voiceName], speechStep ai targetText voiceName))"

section \<open>services/audioUtils\<close>

text \<open>
  Modelled from the spec: \<open>services/audioUtils\<close> (\<open>createWavFile\<close>, \<open>decodeBase64\<close>) is
  not among the source files. \<open>createWavFile\<close> follows the layout the spec gives for
  \<open>buildContainer\<close>: a 44-byte header, every multi-byte field little-endian, then the PCM
  bytes. A field of 16 or 32 bits holds its value modulo \<open>2 ^ 16\<close> or \<open>2 ^ 32\<close>, as a write
  through a \<open>DataView\<close> does. The result stands for the bytes of the blob.
\<close>

definition tag :: "string \<Rightarrow> byte list" where
  "tag s = map of_char s"

definition uint16LE :: "nat \<Rightarrow> byte list" where
  "uint16LE n = [of_nat n, of_nat (n div 256)]"

definition uint32LE :: "nat \<Rightarrow> byte list" where
  "uint32LE n = [of_nat n, of_nat (n div 256), of_nat (n div 65536), of_nat (n div 16777216)]"

definition wavHeader :: "nat \<Rightarrow> byte list" where
  "wavHeader dataLength =
     tag ''RIFF'' @ uint32LE (36 + dataLength) @ tag ''WAVE'' @
     tag ''fmt '' @ uint32LE 16 @ uint16LE 1 @ uint16LE 1 @
     uint32LE 24000 @ uint32LE (24000 * 2) @ uint16LE 2 @ uint16LE 16 @
     tag ''data'' @ uint32LE dataLength"

definition createWavFile :: "byte list \<Rightarrow> byte list" where
  "createWavFile pcmBytes = wavHeader (length pcmBytes) @ pcmBytes"


section \<open>App.tsx\<close>

text \<open>
  What the component takes from outside the source files: \<open>decodeBase64\<close> of
  \<open>services/audioUtils\<close>, which may throw, and the browser's \<open>URL.createObjectURL\<close>.
\<close>

record env =
  decodeBase64 :: "jsstring \<Rightarrow> js_error + byte list"
  createObjectURL :: "byte list \<Rightarrow> jsstring"

text \<open>
  The state of the component: the four \<open>useState\<close> hooks (\<open>text\<close>, \<open>selectedVoice\<close>,
  \<open>selectedLanguage\<close>, \<open>status\<close>), and the calls of \<open>handleGenerate\<close> that are suspended
  at \<open>await generateSpeech(text, selectedVoice, selectedLanguage)\<close>, each with the
  arguments it captured.
\<close>

record app =
  app_text :: jsstring
  selectedVoice :: VoiceName
  selectedLanguage :: Language
  app_status :: AudioGenerationState
  pending :: "(jsstring \<times> VoiceName \<times> Language) list"

definition idle :: AudioGenerationState where
  "idle = \<lparr>isGenerating = False, audioUrl = None, error = None, rawBuffer = None\<rparr>"

definition initial :: app where
  "initial = \<lparr>app_text = [], selectedVoice = Zephyr, selectedLanguage = Lang_en,
              app_status = idle, pending = []\<rparr>"

definition CONNECTION_LOST :: jsstring where
  "CONNECTION_LOST = ascii ''Connection lost. Please try again.''"

text \<open>The \<open>disabled\<close> attribute of the button that calls \<open>handleGenerate\<close>.\<close>

definition generateDisabled :: "app \<Rightarrow> bool" where
  "generateDisabled a = (isGenerating (app_status a) \<or> trim (app_text a) = [])"

text \<open>\<open>handleGenerate\<close> up to its \<open>await\<close>.\<close>

definition handleGenerate :: "app \<Rightarrow> app" where
  "handleGenerate a =
     (if trim (app_text a) = [] then a
      else a\<lparr>app_status := (app_status a)\<lparr>isGenerating := True, error := None,
                                            audioUrl := None, rawBuffer := None\<rparr>,
             pending := pending a @ [(app_text a, selectedVoice a, selectedLanguage a)]\<rparr>)"

text \<open>The \<open>catch\<close> block of \<open>handleGenerate\<close>: \<open>err.message || 'Connection lost. ...'\<close>.\<close>

definition handleGenerate_catch :: "js_error \<Rightarrow> AudioGenerationState \<Rightarrow> AudioGenerationState" where
  "handleGenerate_catch err prev =
     prev\<lparr>isGenerating := False,
          error := Some (case message err of Some (c # cs) \<Rightarrow> c # cs | _ \<Rightarrow> CONNECTION_LOST)\<rparr>"

text \<open>
  \<open>handleGenerate\<close> from its \<open>await\<close> on, for a call that captured the given arguments,
  the remote service answering as \<open>ai\<close>: the new \<open>status\<close> from the one at that moment.
\<close>

definition handleGenerate_resume ::
  "env \<Rightarrow> service \<Rightarrow> jsstring \<times> VoiceName \<times> Language \<Rightarrow> AudioGenerationState \<Rightarrow> AudioGenerationState" where
  "handleGenerate_resume e ai captured prev =
     (case captured of (inputText, voiceName, language) \<Rightarrow>
        (case snd (generateSpeech ai inputText voiceName language) of
           Inl err \<Rightarrow> handleGenerate_catch err prev
         | Inr base64 \<Rightarrow>
             (case decodeBase64 e base64 of
                Inl err \<Rightarrow> handleGenerate_catch err prev
              | Inr pcmBytes \<Rightarrow>
                  \<lparr>isGenerating = False,
                   audioUrl = Some (createObjectURL e (createWavFile pcmBytes)),
                   error = None,
                   rawBuffer = Some pcmBytes\<rparr>)))"

definition handleClear :: "app \<Rightarrow> app" where
  "handleClear a = a\<lparr>app_text := [], app_status := idle\<rparr>"

text \<open>The \<open>onClick\<close> of a language button.\<close>

definition selectLanguage :: "Language \<Rightarrow> app \<Rightarrow> app" where
  "selectLanguage l a =
     a\<lparr>selectedLanguage := l,
       app_status := (app_status a)\<lparr>audioUrl := None, rawBuffer := None, error := None\<rparr>\<rparr>"

text \<open>
  The events of the component: input in the text area (\<open>onChange\<close> keeps the first 500
  code units), the choice of a voice or a language, a click on the generate button (which
  does nothing while the button is disabled), a click on the clear button, and the
  settling of the \<open>k\<close>-th suspended call, the remote service answering as given.
\<close>

datatype event =
    Change jsstring
  | SelectVoice VoiceName
  | SelectLanguage Language
  | ClickGenerate
  | ClickClear
  | Settle nat service

fun step :: "env \<Rightarrow> app \<Rightarrow> event \<Rightarrow> app" where
  "step e a (Change s) = a\<lparr>app_text := take 500 s\<rparr>"
| "step e a (SelectVoice v) = a\<lparr>selectedVoice := v\<rparr>"
| "step e a (SelectLanguage l) = selectLanguage l a"
| "step e a ClickGenerate = (if generateDisabled a then a else handleGenerate a)"
| "step e a ClickClear = handleClear a"
| "step e a (Settle k ai) =
     (if k < length (pending a)
      then a\<lparr>app_status := handleGenerate_resume e ai (pending a ! k) (app_status a),
             pending := take k (pending a) @ drop (Suc k) (pending a)\<rparr>
      else a)"

definition run :: "env \<Rightarrow> event list \<Rightarrow> app" where
  "run e evs = foldl (step e) initial evs"

text \<open>The audio result of a status: the playable URL or the raw buffer.\<close>

definition audioPresent :: "AudioGenerationState \<Rightarrow> bool" where
  "audioPresent s = (\<not> (audioUrl s = None \<and> rawBuffer s = None))"

section \<open>Services and environments for the examples\<close>

definition audio_part :: "jsstring \<Rightarrow> part" where
  "audio_part d =
     \<lparr>part_text = None,
      inlineData = Some \<lparr>mimeType = ascii ''audio/L16;codec=pcm;rate=24000'', data = Some d\<rparr>\<rparr>"

definition audio_response :: "jsstring \<Rightarrow> response" where
  "audio_response d =
     \<lparr>response_text = None, candidates = Some [\<lparr>content = \<lparr>parts = [audio_part d]\<rparr>\<rparr>]\<rparr>"

definition audio_service :: service where
  "audio_service req = Inr (audio_response (ascii ''AAA=''))"

definition no_candidates_service :: service where
  "no_candidates_service req = Inr \<lparr>response_text = None, candidates = Some []\<rparr>"

definition empty_audio_service :: service where
  "empty_audio_service req = Inr (audio_response [])"


text \<open>
  A service that answers the translation request with the given text and every other
  request with audio.
\<close>

definition translating_service :: "jsstring option \<Rightarrow> service" where
  "translating_service t req =
     (if config req = Temperature_0_1
      then Inr \<lparr>response_text = t, candidates = None\<rparr>
      else Inr (audio_response (ascii ''AAA='')))"

text \<open>A service whose translation fails and whose speech synthesis answers with audio.\<close>

definition untranslating_service :: service where
  "untranslating_service req =
     (if config req = Temperature_0_1
      then Inl (new_Error (ascii ''translation unavailable''))
      else Inr (audio_response (ascii ''AAA='')))"

text \<open>The Malayalam greeting of the spec's scenario, as UTF-16 code units.\<close>

definition namaskaram :: jsstring where
  "namaskaram = [0x0D28, 0x0D2E, 0x0D38, 0x0D4D, 0x0D15, 0x0D3E, 0x0D30, 0x0D02]"

text \<open>
  An environment that decodes \<open>AAA=\<close> to its two zero bytes, rejects every other string,
  and names every blob \<open>blob:1\<close>.
\<close>

definition example_env :: env where
  "example_env =
     \<lparr>decodeBase64 = (\<lambda>s. if s = ascii ''AAA='' then Inr [0, 0]
                            else Inl (new_Error (ascii ''not base64''))),
      createObjectURL = (\<lambda>b. ascii ''blob:1'')\<rparr>"

section \<open>Runs of the component\<close>

text \<open>
  A run in which the clear button is clicked while a call of \<open>handleGenerate\<close> is
  suspended, and the generate button is clicked again after new input.
\<close>

definition overlapping :: "event list" where
  "overlapping =
     [Change (ascii ''a''), ClickGenerate, ClickClear, Change (ascii ''b''), ClickGenerate]"

text \<open>
  The states in which at most one call is suspended: \<open>isGenerating\<close> tells whether one is,
  no result and no error is shown while one is, and never both.
\<close>

definition single_flight :: "app \<Rightarrow> bool" where
  "single_flight a =
     (length (pending a) \<le> 1 \<and>
      isGenerating (app_status a) = (pending a \<noteq> []) \<and>
      (if pending a = [] then \<not> (audioPresent (app_status a) \<and> error (app_status a) \<noteq> None)
       else \<not> audioPresent (app_status a) \<and> error (app_status a) = None))"

section \<open>Facts about the strings and the requests\<close>

lemma rethrow_BLOCKED: "rethrow (new_Error BLOCKED) = new_Error BLOCKED"
  by (simp add: rethrow_def is500_def new_Error_def BLOCKED_def ascii_def)

lemma rethrow_CANNOT_PROCESS: "rethrow (new_Error CANNOT_PROCESS) = new_Error CANNOT_PROCESS"
  by (simp add: rethrow_def is500_def new_Error_def CANNOT_PROCESS_def ascii_def)

lemma fst_generateSpeech:
  "fst (generateSpeech ai inputText voiceName language) =
     fst (translationStep ai inputText language) @
     [speechRequest (snd (translationStep ai inputText language)) voiceName]"
  by (simp add: generateSpeech_def split: prod.splits)

lemma last_sent:
  "last (fst (generateSpeech ai inputText voiceName language)) =
     speechRequest (snd (translationStep ai inputText language)) voiceName"
  by (simp add: fst_generateSpeech)

lemma snd_generateSpeech:
  "snd (generateSpeech ai inputText voiceName language) =
     speechStep ai (snd (translationStep ai inputText language)) voiceName"
  by (simp add: generateSpeech_def split: prod.splits)

lemma translationStep_en: "translationStep ai inputText Lang_en = ([], inputText)"
  by (simp add: translationStep_def)

lemma speech_ne_translation: "translationRequest u \<noteq> speechRequest t v"
  by (simp add: speechRequest_def translationRequest_def)

lemma audio_mime: "startsWith (ascii ''audio/L16;codec=pcm;rate=24000'') (ascii ''audio/'')"
  by (simp add: ascii_def)

lemma isAudioPart_audio_part: "isAudioPart (audio_part d)"
  by (simp add: isAudioPart_def audio_part_def audio_mime)

lemma speechStep_audio:
  "ai (speechRequest t v) = Inr (audio_response (ascii ''AAA='')) \<Longrightarrow>
     speechStep ai t v = Inr (ascii ''AAA='')"
  by (simp add: speechStep_def extractAudio_def audio_response_def isAudioPart_audio_part)
     (simp add: audio_part_def ascii_def)

section \<open>generateSpeech in the source language\<close>

text \<open>
  C2. With the language \<open>'en'\<close>, \<open>generateSpeech\<close> sends exactly one request, the speech
  synthesis request for the input text unchanged, and no translation request. For the text
  \<open>Hello\<close> and the voice \<open>Zephyr\<close>, when the synthesis response has one candidate whose one
  part carries inline data with a MIME type that starts with \<open>audio/\<close> and the base64 data
  \<open>AAA=\<close>, it returns exactly \<open>AAA=\<close>.
\<close>

theorem generateSpeech_source_language:
  "fst (generateSpeech ai inputText voiceName Lang_en) = [speechRequest inputText voiceName] \<and>
   (\<forall>t. translationRequest t \<notin> set (fst (generateSpeech ai inputText voiceName Lang_en))) \<and>
   (ai (speechRequest (ascii ''Hello'') Zephyr) =
      Inr \<lparr>response_text = rt, candidates = Some [\<lparr>content = \<lparr>parts =
        [\<lparr>part_text = pt, inlineData = Some \<lparr>mimeType = mt, data = Some (ascii ''AAA='')\<rparr>\<rparr>]\<rparr>\<rparr>]\<rparr>
    \<longrightarrow> startsWith mt (ascii ''audio/'')
    \<longrightarrow> generateSpeech ai (ascii ''Hello'') Zephyr Lang_en =
          ([speechRequest (ascii ''Hello'') Zephyr], Inr (ascii ''AAA='')))"
  by (simp add: prod_eq_iff fst_generateSpeech snd_generateSpeech translationStep_en
        speech_ne_translation speechStep_def extractAudio_def isAudioPart_def)
     (simp add: ascii_def)

theorem generateSpeech_source_language_witness:
  "generateSpeech audio_service (ascii ''Hello'') Zephyr Lang_en =
     ([speechRequest (ascii ''Hello'') Zephyr], Inr (ascii ''AAA=''))"
  using generateSpeech_source_language
          [where ai = audio_service and rt = None and pt = None
             and mt = "ascii ''audio/L16;codec=pcm;rate=24000''"] audio_mime
  by (simp add: audio_service_def audio_response_def audio_part_def)

section \<open>No candidate\<close>

text \<open>
  C4. When the response to the synthesis request (the last request sent) has no candidate
  list or an empty one, \<open>generateSpeech\<close> rejects: its outcome is an error whose message
  is the text that contains \<open>blocked\<close> and \<open>no results\<close>.
\<close>

theorem generateSpeech_no_candidate:
  assumes "ai (last (fst (generateSpeech ai inputText voiceName language))) = Inr resp"
    and "candidates resp = None \<or> candidates resp = Some []"
  shows "\<exists>err. snd (generateSpeech ai inputText voiceName language) = Inl err \<and>
           message err = Some BLOCKED \<and>
           includes_str BLOCKED (ascii ''blocked'') \<and> includes_str BLOCKED (ascii ''no results'')"
proof -
  from assms have "snd (generateSpeech ai inputText voiceName language) = Inl (new_Error BLOCKED)"
    by (auto simp: last_sent snd_generateSpeech speechStep_def extractAudio_def rethrow_BLOCKED)
  moreover have "includes_str BLOCKED (ascii ''blocked'') \<and> includes_str BLOCKED (ascii ''no results'')"
    by (simp add: BLOCKED_def ascii_def)
  ultimately show ?thesis by (simp add: new_Error_def)
qed

theorem generateSpeech_no_candidate_witness:
  "\<exists>err. snd (generateSpeech no_candidates_service (ascii ''Hello'') Zephyr Lang_en) = Inl err \<and>
           message err = Some BLOCKED \<and>
           includes_str BLOCKED (ascii ''blocked'') \<and> includes_str BLOCKED (ascii ''no results'')"
  by (rule generateSpeech_no_candidate
             [where ai = no_candidates_service
                and resp = "\<lparr>response_text = None, candidates = Some []\<rparr>"])
     (simp_all add: no_candidates_service_def)

section \<open>The audio part\<close>

lemma find_first:
  "(\<forall>q \<in> set pre. \<not> P q) \<Longrightarrow> P p \<Longrightarrow> find P (pre @ p # post) = Some p"
  by (induction pre) auto

lemma find_Some_split:
  assumes "find P ps = Some p"
  shows "\<exists>pre post. ps = pre @ p # post \<and> (\<forall>q \<in> set pre. \<not> P q) \<and> P p"
proof -
  from assms have "\<exists>x \<in> set ps. P x" by (auto simp: find_Some_iff)
  from split_list_first_prop [OF this]
  obtain pre x post where s: "ps = pre @ x # post" "P x" "\<forall>q \<in> set pre. \<not> P q"
    by blast
  with assms find_first [of pre P x post] show ?thesis by auto
qed

text \<open>The outcome of \<open>generateSpeech\<close> when the synthesis response has a first candidate.\<close>

lemma first_candidate_outcome:
  assumes "ai (last (fst (generateSpeech ai inputText voiceName language))) = Inr resp"
    and "candidates resp = Some (cand # rest)"
  shows "snd (generateSpeech ai inputText voiceName language) =
    (case find isAudioPart (parts (content cand)) of
       None \<Rightarrow> Inl (new_Error CANNOT_PROCESS)
     | Some p \<Rightarrow>
        (case inlineData p of
           None \<Rightarrow> Inl (new_Error CANNOT_PROCESS)
         | Some b \<Rightarrow> (case data b of Some (c # cs) \<Rightarrow> Inr (c # cs)
                                    | _ \<Rightarrow> Inl (new_Error CANNOT_PROCESS))))"
  using assms
  by (simp add: last_sent snd_generateSpeech speechStep_def extractAudio_def rethrow_CANNOT_PROCESS
           split: option.splits list.splits)

text \<open>
  C5 (amended). When the response to the synthesis request has a first candidate,
  \<open>generateSpeech\<close> returns the base64 payload of the first part, in order, whose inline
  data has a MIME type that starts with \<open>audio/\<close>, provided that payload is present and
  not empty. It rejects with the message that the speech engine could not process the text
  if and only if the candidate has no such part, or the payload of the first such part is
  absent or empty.
\<close>

theorem generateSpeech_audio_part:
  assumes "ai (last (fst (generateSpeech ai inputText voiceName language))) = Inr resp"
    and "candidates resp = Some (cand # rest)"
  shows "(\<forall>pre p post b d.
            parts (content cand) = pre @ p # post \<and> (\<forall>q \<in> set pre. \<not> isAudioPart q) \<and>
            inlineData p = Some b \<and> startsWith (mimeType b) (ascii ''audio/'') \<and>
            data b = Some d \<and> d \<noteq> []
            \<longrightarrow> snd (generateSpeech ai inputText voiceName language) = Inr d) \<and>
         (snd (generateSpeech ai inputText voiceName language) = Inl (new_Error CANNOT_PROCESS) \<longleftrightarrow>
           (\<forall>q \<in> set (parts (content cand)). \<not> isAudioPart q) \<or>
           (\<exists>pre p post b.
              parts (content cand) = pre @ p # post \<and> (\<forall>q \<in> set pre. \<not> isAudioPart q) \<and>
              inlineData p = Some b \<and> startsWith (mimeType b) (ascii ''audio/'') \<and>
              (data b = None \<or> data b = Some [])))"
    (is "?found \<and> (?rejected \<longleftrightarrow> ?none \<or> ?empty)")
proof -
  note out = first_candidate_outcome [of ai inputText voiceName language resp cand rest, OF assms]
  have first: "find isAudioPart (pre @ p # post) = Some p"
    if "\<forall>q \<in> set pre. \<not> isAudioPart q" "inlineData p = Some b"
       "startsWith (mimeType b) (ascii ''audio/'')" for pre p post b
    using that by (simp add: find_first isAudioPart_def)
  have ?found
    by (auto simp: out first split: list.splits)
  moreover have "?none \<or> ?empty" if ?rejected
  proof (cases "find isAudioPart (parts (content cand))")
    case None
    then show ?thesis by (simp add: find_None_iff)
  next
    case (Some p)
    from find_Some_split [OF Some] obtain pre post where
      "parts (content cand) = pre @ p # post" "\<forall>q \<in> set pre. \<not> isAudioPart q" "isAudioPart p"
      by blast
    with that Some have ?empty
      by (auto simp: out isAudioPart_def split: option.splits list.splits)
    then show ?thesis ..
  qed
  moreover have ?rejected if ?none
    using that by (simp add: out find_None_iff [THEN iffD2])
  moreover have ?rejected if ?empty
    using that by (auto simp: out first)
  ultimately show ?thesis by blast
qed

theorem generateSpeech_audio_part_witness:
  "snd (generateSpeech audio_service (ascii ''Hello'') Zephyr Lang_en) = Inr (ascii ''AAA='')"
proof -
  have "ascii ''AAA='' \<noteq> []" by (simp add: ascii_def)
  with generateSpeech_audio_part
         [where ai = audio_service and inputText = "ascii ''Hello''" and voiceName = Zephyr
            and language = Lang_en and resp = "audio_response (ascii ''AAA='')"
            and cand = "\<lparr>content = \<lparr>parts = [audio_part (ascii ''AAA='')]\<rparr>\<rparr>" and rest = "[]",
          THEN conjunct1, rule_format,
          where pre = "[]" and p = "audio_part (ascii ''AAA='')" and post = "[]"
            and d = "ascii ''AAA=''"
            and b = "\<lparr>mimeType = ascii ''audio/L16;codec=pcm;rate=24000'',
                      data = Some (ascii ''AAA='')\<rparr>"]
  show ?thesis
    by (simp add: audio_service_def audio_response_def audio_part_def audio_mime)
qed

text \<open>
  C5, counterexample to the original wording: a candidate whose only part is an audio part
  with the empty payload has such a part, and \<open>generateSpeech\<close> still rejects with that
  message.
\<close>

theorem generateSpeech_audio_part_counterexample:
  "empty_audio_service (last (fst (generateSpeech empty_audio_service (ascii ''Hello'') Zephyr Lang_en)))
     = Inr (audio_response []) \<and>
   candidates (audio_response []) = Some [\<lparr>content = \<lparr>parts = [audio_part []]\<rparr>\<rparr>] \<and>
   isAudioPart (audio_part []) \<and>
   snd (generateSpeech empty_audio_service (ascii ''Hello'') Zephyr Lang_en)
     = Inl (new_Error CANNOT_PROCESS)"
proof -
  have "extractAudio (audio_response []) = Inl (new_Error CANNOT_PROCESS)"
    by (simp add: extractAudio_def audio_response_def isAudioPart_audio_part)
       (simp add: audio_part_def)
  then show ?thesis
    by (simp add: snd_generateSpeech speechStep_def empty_audio_service_def rethrow_CANNOT_PROCESS
          audio_response_def isAudioPart_audio_part)
qed

section \<open>Errors of the transport\<close>







section \<open>generateSpeech in the target language\<close>

lemma translationStep_thrown:
  "ai (translationRequest inputText) = Inl err \<Longrightarrow>
     translationStep ai inputText Lang_ml = ([translationRequest inputText], fallbackText inputText)"
  by (simp add: translationStep_def)

lemma translationStep_translated:
  "ai (translationRequest inputText) = Inr resp \<Longrightarrow> response_text resp = Some t \<Longrightarrow>
   trim t \<noteq> [] \<Longrightarrow>
     translationStep ai inputText Lang_ml = ([translationRequest inputText], trim t)"
  by (simp add: translationStep_def split: list.splits)

lemma translationStep_untranslated:
  "ai (translationRequest inputText) = Inr resp \<Longrightarrow>
     response_text resp = None \<or> (\<exists>t. response_text resp = Some t \<and> trim t = []) \<Longrightarrow>
     translationStep ai inputText Lang_ml = ([translationRequest inputText], inputText)"
  by (auto simp: translationStep_def)

lemma config_requests:
  "config (translationRequest t) = Temperature_0_1"
  "config (speechRequest u v) \<noteq> Temperature_0_1"
  by (simp_all add: translationRequest_def speechRequest_def)

text \<open>
  C3 (amended). With the language \<open>'ml'\<close>: when the translation call returns a text that
  is not empty after trimming, the synthesis request carries that trimmed translation; when
  the translation call throws, \<open>generateSpeech\<close> still sends the synthesis request, for the
  original text prefixed by \<open>Read the following in Malayalam: \<close>, and its outcome is that
  of the synthesis of the prefixed text alone, so the translation failure does not make it
  fail.
\<close>

theorem generateSpeech_target_language:
  "(ai (translationRequest inputText) = Inr resp \<and> response_text resp = Some t \<and> trim t \<noteq> [] \<longrightarrow>
      fst (generateSpeech ai inputText voiceName Lang_ml) =
        [translationRequest inputText, speechRequest (trim t) voiceName]) \<and>
   (ai (translationRequest inputText) = Inl err \<longrightarrow>
      fst (generateSpeech ai inputText voiceName Lang_ml) =
        [translationRequest inputText,
         speechRequest (ascii ''Read the following in Malayalam: '' @ inputText) voiceName] \<and>
      snd (generateSpeech ai inputText voiceName Lang_ml) =
        snd (generateSpeech ai (ascii ''Read the following in Malayalam: '' @ inputText)
               voiceName Lang_en))"
  by (simp add: fst_generateSpeech snd_generateSpeech translationStep_en translationStep_thrown
        translationStep_translated fallbackText_def)

theorem generateSpeech_target_language_witness:
  "fst (generateSpeech (translating_service (Some namaskaram)) (ascii ''Hello'') Zephyr Lang_ml) =
     [translationRequest (ascii ''Hello''), speechRequest namaskaram Zephyr] \<and>
   generateSpeech untranslating_service (ascii ''Hello'') Zephyr Lang_ml =
     ([translationRequest (ascii ''Hello''),
       speechRequest (ascii ''Read the following in Malayalam: Hello'') Zephyr],
      Inr (ascii ''AAA=''))"
proof -
  have n: "trim namaskaram = namaskaram" "namaskaram \<noteq> []"
    by (simp_all add: trim_def namaskaram_def isWhiteSpace_def)
  have c: "ascii ''Read the following in Malayalam: '' @ ascii ''Hello'' =
           ascii ''Read the following in Malayalam: Hello''"
    by (simp add: ascii_def)
  have d: "snd (generateSpeech untranslating_service (ascii ''Read the following in Malayalam: Hello'')
             Zephyr Lang_en) = Inr (ascii ''AAA='')"
    by (simp add: snd_generateSpeech translationStep_en speechStep_audio untranslating_service_def
          config_requests)
  from generateSpeech_target_language
         [where ai = "translating_service (Some namaskaram)" and t = namaskaram
            and voiceName = Zephyr and inputText = "ascii ''Hello''"
            and resp = "\<lparr>response_text = Some namaskaram, candidates = None\<rparr>", THEN conjunct1]
  have one: "fst (generateSpeech (translating_service (Some namaskaram)) (ascii ''Hello'') Zephyr Lang_ml) =
     [translationRequest (ascii ''Hello''), speechRequest namaskaram Zephyr]"
    by (simp add: translating_service_def config_requests n)
  from generateSpeech_target_language
         [where ai = untranslating_service and voiceName = Zephyr and inputText = "ascii ''Hello''"
            and err = "new_Error (ascii ''translation unavailable'')", THEN conjunct2]
  have "generateSpeech untranslating_service (ascii ''Hello'') Zephyr Lang_ml =
     ([translationRequest (ascii ''Hello''),
       speechRequest (ascii ''Read the following in Malayalam: Hello'') Zephyr],
      Inr (ascii ''AAA=''))"
    by (simp add: untranslating_service_def config_requests c d prod_eq_iff)
  with one show ?thesis by blast
qed

text \<open>
  C3, counterexample to the original wording: when the translation call returns a single
  space, a text that is not empty, the synthesis request carries the original text and not
  the returned one.
\<close>

theorem generateSpeech_target_language_counterexample:
  "translating_service (Some (ascii '' '')) (translationRequest (ascii ''Hello'')) =
     Inr \<lparr>response_text = Some (ascii '' ''), candidates = None\<rparr> \<and>
   ascii '' '' \<noteq> [] \<and>
   fst (generateSpeech (translating_service (Some (ascii '' ''))) (ascii ''Hello'') Zephyr Lang_ml) =
     [translationRequest (ascii ''Hello''), speechRequest (ascii ''Hello'') Zephyr] \<and>
   speechRequest (ascii ''Hello'') Zephyr \<noteq> speechRequest (ascii '' '') Zephyr"
proof -
  have "trim (ascii '' '') = []"
    by (simp add: trim_def ascii_def isWhiteSpace_def)
  then have "translationStep (translating_service (Some (ascii '' ''))) (ascii ''Hello'') Lang_ml
     = ([translationRequest (ascii ''Hello'')], ascii ''Hello'')"
    by (simp add: translationStep_def translating_service_def config_requests)
  moreover have "speechRequest (ascii ''Hello'') Zephyr \<noteq> speechRequest (ascii '' '') Zephyr"
    "ascii '' '' \<noteq> []"
    by (simp_all add: speechRequest_def ascii_def)
  ultimately show ?thesis
    by (simp add: fst_generateSpeech translating_service_def config_requests)
qed

text \<open>
  C10. With the language \<open>'ml'\<close>, when the translation call returns a response whose text
  is absent or trims to the empty string, the synthesis request carries the original text
  unchanged, which is not the text with the prefix \<open>Read the following in Malayalam: \<close>.
  Whenever the translation call returns, the text synthesized is the original text or the
  trimmed text of the response.
\<close>

theorem generateSpeech_empty_translation:
  assumes "ai (translationRequest inputText) = Inr resp"
  shows "(response_text resp = None \<or> (\<exists>t. response_text resp = Some t \<and> trim t = []) \<longrightarrow>
            fst (generateSpeech ai inputText voiceName Lang_ml) =
              [translationRequest inputText, speechRequest inputText voiceName] \<and>
            speechRequest inputText voiceName \<noteq>
              speechRequest (ascii ''Read the following in Malayalam: '' @ inputText) voiceName) \<and>
         (fst (generateSpeech ai inputText voiceName Lang_ml) =
            [translationRequest inputText, speechRequest inputText voiceName] \<or>
          (\<exists>t. response_text resp = Some t \<and>
               fst (generateSpeech ai inputText voiceName Lang_ml) =
                 [translationRequest inputText, speechRequest (trim t) voiceName]))"
proof -
  have "speechRequest inputText voiceName \<noteq>
          speechRequest (ascii ''Read the following in Malayalam: '' @ inputText) voiceName"
    by (simp add: speechRequest_def ascii_def)
  moreover have "fst (generateSpeech ai inputText voiceName Lang_ml) =
      [translationRequest inputText, speechRequest inputText voiceName]"
    if "response_text resp = None \<or> (\<exists>t. response_text resp = Some t \<and> trim t = [])"
    using translationStep_untranslated [of ai inputText resp, OF assms that]
    by (simp add: fst_generateSpeech)
  moreover have "fst (generateSpeech ai inputText voiceName Lang_ml) =
      [translationRequest inputText, speechRequest (trim t) voiceName]"
    if "response_text resp = Some t" "trim t \<noteq> []" for t
    using translationStep_translated [of ai inputText resp t, OF assms that]
    by (simp add: fst_generateSpeech)
  ultimately show ?thesis by (cases "response_text resp") auto
qed

theorem generateSpeech_empty_translation_witness:
  "fst (generateSpeech (translating_service None) (ascii ''Hello'') Zephyr Lang_ml) =
     [translationRequest (ascii ''Hello''), speechRequest (ascii ''Hello'') Zephyr] \<and>
   speechRequest (ascii ''Hello'') Zephyr \<noteq>
     speechRequest (ascii ''Read the following in Malayalam: '' @ ascii ''Hello'') Zephyr"
  using generateSpeech_empty_translation
         [where ai = "translating_service None" and inputText = "ascii ''Hello''"
            and resp = "\<lparr>response_text = None, candidates = None\<rparr>" and voiceName = Zephyr,
          THEN conjunct1]
  by (simp add: translating_service_def config_requests)

section \<open>The state of the component\<close>

lemma requesting_entered:
  assumes "\<not> isGenerating (app_status a)" and "isGenerating (app_status (step e a ev))"
  shows "ev = ClickGenerate \<and> trim (app_text a) \<noteq> []"
proof (cases ev)
  case (Settle k ai)
  obtain t v l where c: "pending a ! k = (t, v, l)" by (cases "pending a ! k") auto
  from assms Settle c show ?thesis
    by (auto simp: handleGenerate_resume_def handleGenerate_catch_def split: if_splits sum.splits)
qed (use assms in \<open>auto simp: selectLanguage_def handleClear_def idle_def generateDisabled_def
        handleGenerate_def split: if_splits\<close>)

lemma click_while_requesting:
  "isGenerating (app_status a) \<Longrightarrow> step e a ClickGenerate = a"
  by (simp add: generateDisabled_def)

lemma clear_idle:
  "app_status (step e a ClickClear) = idle \<and> app_text (step e a ClickClear) = []"
  by (simp add: handleClear_def)

lemma resume_cases:
  "(\<exists>m. handleGenerate_resume e ai c prev = prev\<lparr>isGenerating := False, error := Some m\<rparr>) \<or>
   (\<exists>u b. handleGenerate_resume e ai c prev =
      \<lparr>isGenerating = False, audioUrl = Some u, error = None, rawBuffer = Some b\<rparr>)"
  by (cases c) (auto simp: handleGenerate_resume_def handleGenerate_catch_def split: sum.splits)

lemma single_flight_step:
  assumes "single_flight a" and "ev = ClickClear \<longrightarrow> pending a = []"
  shows "single_flight (step e a ev)"
proof (cases ev)
  case (Settle k ai)
  show ?thesis
  proof (cases "k < length (pending a)")
    case True
    with assms(1) obtain x where px: "pending a = [x]" and k: "k = 0"
      by (cases "pending a") (auto simp: single_flight_def)
    from resume_cases [of e ai x "app_status a"] assms(1) px
    have "\<not> isGenerating (handleGenerate_resume e ai x (app_status a)) \<and>
          \<not> (audioPresent (handleGenerate_resume e ai x (app_status a)) \<and>
             error (handleGenerate_resume e ai x (app_status a)) \<noteq> None)"
      by (auto simp: single_flight_def audioPresent_def)
    with Settle px k show ?thesis by (simp add: single_flight_def)
  qed (use assms Settle in simp)
qed (use assms in \<open>auto simp: single_flight_def selectLanguage_def generateDisabled_def
       handleGenerate_def handleClear_def idle_def audioPresent_def\<close>)

lemma single_flight_initial: "single_flight initial"
  by (simp add: single_flight_def initial_def idle_def audioPresent_def)

lemma single_flight_exclusive:
  "single_flight a \<Longrightarrow> \<not> (audioPresent (app_status a) \<and> error (app_status a) \<noteq> None)"
  by (auto simp: single_flight_def split: if_splits)

lemma single_flight_failure:
  assumes "single_flight a" and "pending a = [(t, v, l)]"
    and "snd (generateSpeech ai t v l) = Inl err"
  shows "app_status (step e a (Settle 0 ai)) =
           \<lparr>isGenerating = False, audioUrl = None,
            error = Some (case message err of Some (c # cs) \<Rightarrow> c # cs | _ \<Rightarrow> CONNECTION_LOST),
            rawBuffer = None\<rparr>"
proof -
  from assms(1,2) have "audioUrl (app_status a) = None" "rawBuffer (app_status a) = None"
    by (auto simp: single_flight_def audioPresent_def)
  with assms(2,3) show ?thesis
    by (simp add: handleGenerate_resume_def handleGenerate_catch_def)
qed

section \<open>Overlapping submissions\<close>

lemma trim_a: "trim (ascii ''a'') = ascii ''a''" "trim (ascii ''b'') = ascii ''b''"
  by (simp_all add: trim_def ascii_def isWhiteSpace_def)

lemma take_a: "take 500 (ascii ''a'') = ascii ''a''" "take 500 (ascii ''b'') = ascii ''b''"
  by (simp_all add: ascii_def)

lemma ascii_a_nonempty: "ascii ''a'' \<noteq> []" "ascii ''b'' \<noteq> []"
  by (simp_all add: ascii_def)

lemma settle_audio:
  "handleGenerate_resume example_env audio_service (t, v, Lang_en) prev =
     \<lparr>isGenerating = False, audioUrl = Some (ascii ''blob:1''), error = None, rawBuffer = Some [0, 0]\<rparr>"
  by (simp add: handleGenerate_resume_def snd_generateSpeech translationStep_def
        speechStep_def audio_service_def extractAudio_def audio_response_def isAudioPart_audio_part
        example_env_def)
     (simp add: audio_part_def ascii_def)

lemma handleGenerate_catch_message:
  "m \<noteq> [] \<Longrightarrow>
     handleGenerate_catch \<lparr>message = Some m, status = s\<rparr> prev =
       prev\<lparr>isGenerating := False, error := Some m\<rparr>"
  by (cases m) (simp_all add: handleGenerate_catch_def)

lemma settle_no_candidates:
  "handleGenerate_resume e no_candidates_service (t, v, Lang_en) prev =
     prev\<lparr>isGenerating := False, error := Some BLOCKED\<rparr>"
proof -
  have "snd (generateSpeech no_candidates_service t v Lang_en) = Inl (new_Error BLOCKED)"
    by (simp add: snd_generateSpeech speechStep_def no_candidates_service_def extractAudio_def
          rethrow_BLOCKED)
  moreover have "BLOCKED \<noteq> []" by (simp add: BLOCKED_def ascii_def)
  ultimately show ?thesis
    by (simp add: handleGenerate_resume_def new_Error_def handleGenerate_catch_message)
qed

text \<open>
  C9. The claim: \<open>isGenerating\<close> becomes true only by a submission with text that is not
  empty after trimming, from a state in which it is false; a submission while it is true is
  not started; no two submissions ever overlap; and the clear button returns every state to
  idle. The first, second and last part are the lemmas \<open>requesting_entered\<close>,
  \<open>click_while_requesting\<close> and \<open>clear_idle\<close>. The third part fails at the run
  \<open>overlapping\<close>: the clear button resets \<open>isGenerating\<close> while the first call is still
  suspended, the generate button is enabled again after new input, and a second call
  starts. Two submissions are then in flight at once.
\<close>

theorem clear_while_requesting_overlaps:
  "run example_env overlapping =
     \<lparr>app_text = ascii ''b'', selectedVoice = Zephyr, selectedLanguage = Lang_en,
      app_status = \<lparr>isGenerating = True, audioUrl = None, error = None, rawBuffer = None\<rparr>,
      pending = [(ascii ''a'', Zephyr, Lang_en), (ascii ''b'', Zephyr, Lang_en)]\<rparr>"
  by (simp add: run_def overlapping_def initial_def idle_def generateDisabled_def handleGenerate_def
        handleClear_def trim_a take_a ascii_a_nonempty)

text \<open>
  C8. The claim: in every reachable state the audio result and the error are never both
  present, and every failure of \<open>generateSpeech\<close> leaves the error message with the audio
  URL and the raw buffer null. It holds as long as the clear button is not clicked while a
  call is suspended (\<open>single_flight_step\<close>, \<open>single_flight_exclusive\<close>,
  \<open>single_flight_failure\<close>). It fails at the run \<open>overlapping\<close> continued by the success
  of the second call and then the failure of the first: the \<open>catch\<close> block of the first
  call keeps the audio URL and the raw buffer of the status it finds and adds its error
  message, so that the audio result and the error are both present.
\<close>

theorem stale_failure_keeps_audio:
  "app_status (run example_env (overlapping @ [Settle 1 audio_service, Settle 0 no_candidates_service])) =
     \<lparr>isGenerating = False, audioUrl = Some (ascii ''blob:1''), error = Some BLOCKED,
      rawBuffer = Some [0, 0]\<rparr>"
  by (simp add: run_def overlapping_def initial_def idle_def generateDisabled_def handleGenerate_def
        handleClear_def trim_a take_a ascii_a_nonempty settle_audio settle_no_candidates)

section \<open>The WAV container\<close>








end
